theory Spec2Isabelle
  imports Complex_Main
begin

section \<open>LangSAM (samgeo/text\_sam.py): data model\<close>

text \<open>
  The module chains an open-vocabulary detector (GroundingDINO) and a promptable segmenter
  (Segment Anything) and merges the masks into one overlay raster. The two networks, PIL,
  rasterio, matplotlib and the helpers imported from \<^verbatim>\<open>.common\<close> are outside the file;
  they enter the model as the fields of an environment record, each a function that may
  fail. Everything the file itself does (the control flow of \<^verbatim>\<open>predict\<close>, \<^verbatim>\<open>show_anns\<close>
  and \<^verbatim>\<open>main\<close>, the assignments to \<^verbatim>\<open>self\<close>, the NumPy arithmetic of the overlay) is
  written out.
\<close>

subsection \<open>Exceptions\<close>

datatype error =
    ValueError string
  | UnboundLocalError string
  | TypeError string
  | IndexError string
  | OverflowError string
  | KeyError string
  | ExternalError string

subsection \<open>NumPy integer arrays\<close>

text \<open>
  The integer dtypes of NumPy. A 2-D array is its dtype and its rows; the cells are
  mathematical integers and every operation writes out the cast it performs.
\<close>

datatype dtype = UInt8 | Int8 | UInt16 | Int16 | UInt32 | Int32 | UInt64 | Int64

fun bits :: "dtype \<Rightarrow> nat" where
  "bits UInt8 = 8"
| "bits Int8 = 8"
| "bits UInt16 = 16"
| "bits Int16 = 16"
| "bits UInt32 = 32"
| "bits Int32 = 32"
| "bits UInt64 = 64"
| "bits Int64 = 64"

fun is_signed :: "dtype \<Rightarrow> bool" where
  "is_signed UInt8 = False"
| "is_signed Int8 = True"
| "is_signed UInt16 = False"
| "is_signed Int16 = True"
| "is_signed UInt32 = False"
| "is_signed Int32 = True"
| "is_signed UInt64 = False"
| "is_signed Int64 = True"

definition wrap :: "dtype \<Rightarrow> int \<Rightarrow> int" where
  \<comment> \<open>the C cast NumPy applies in \<^verbatim>\<open>astype\<close> and in integer arithmetic: keep the low bits\<close>
  "wrap dt v =
     (if is_signed dt
      then (v + 2 ^ (bits dt - 1)) mod 2 ^ bits dt - 2 ^ (bits dt - 1)
      else v mod 2 ^ bits dt)"

record ndarray =
  arr_dtype :: dtype
  arr_data :: "int list list"

type_synonym mask = "bool list list"
  \<comment> \<open>one slice of the boolean tensor the segmenter returns, rows of an H x W plane\<close>

definition zeros :: "nat \<Rightarrow> nat \<Rightarrow> dtype \<Rightarrow> ndarray" where
  \<comment> \<open>\<^verbatim>\<open>np.zeros_like(plane, dtype=dtype)\<close> for a plane of h rows and w columns\<close>
  "zeros h w dt = \<lparr>arr_dtype = dt, arr_data = replicate h (replicate w 0)\<rparr>"

definition mask_astype :: "dtype \<Rightarrow> mask \<Rightarrow> ndarray" where
  \<comment> \<open>\<^verbatim>\<open>mask.cpu().numpy().astype(dtype)\<close>: True is 1, False is 0\<close>
  "mask_astype dt m =
     \<lparr>arr_dtype = dt, arr_data = map (map (\<lambda>b. wrap dt (if b then 1 else 0))) m\<rparr>"

definition gt0 :: "ndarray \<Rightarrow> bool list list" where
  \<comment> \<open>\<^verbatim>\<open>a > 0\<close>\<close>
  "gt0 a = map (map (\<lambda>v. 0 < v)) (arr_data a)"

definition bool_times :: "bool list list \<Rightarrow> int \<Rightarrow> ndarray" where
  \<comment> \<open>a boolean array times a Python int: NumPy's default integer type, int64\<close>
  "bool_times b k = \<lparr>arr_dtype = Int64, arr_data = map (map (\<lambda>t. if t then k else 0)) b\<rparr>"

definition astype :: "dtype \<Rightarrow> ndarray \<Rightarrow> ndarray" where
  "astype dt a = \<lparr>arr_dtype = dt, arr_data = map (map (wrap dt)) (arr_data a)\<rparr>"

definition bcast :: "nat \<Rightarrow> 'a list \<Rightarrow> 'a list option" where
  \<comment> \<open>NumPy broadcasting along one axis: equal length, or length 1 stretched\<close>
  "bcast n xs =
     (if length xs = n then Some xs
      else if length xs = 1 then Some (replicate n (hd xs))
      else None)"

definition iadd :: "ndarray \<Rightarrow> ndarray \<Rightarrow> error + ndarray" where
  \<comment> \<open>\<^verbatim>\<open>acc += x\<close>: x is broadcast to the shape of acc, the sum is stored in acc's dtype.
      Both operands have the same dtype wherever the file uses it; NumPy refuses an
      in-place add that would need an unsafe cast.\<close>
  "iadd acc x =
     (if arr_dtype x \<noteq> arr_dtype acc then Inl (TypeError ''ufunc add: cannot cast output'')
      else case bcast (length (arr_data acc)) (arr_data x) of
        None \<Rightarrow> Inl (ValueError ''operands could not be broadcast together'')
      | Some rows \<Rightarrow>
          (case those (map2 (\<lambda>a r. bcast (length a) r) (arr_data acc) rows) of
             None \<Rightarrow> Inl (ValueError ''operands could not be broadcast together'')
           | Some rows' \<Rightarrow>
               Inr \<lparr>arr_dtype = arr_dtype acc,
                    arr_data = map2 (map2 (\<lambda>u v. wrap (arr_dtype acc) (u + v)))
                                 (arr_data acc) rows'\<rparr>))"

definition pixel :: "ndarray \<Rightarrow> nat \<Rightarrow> nat \<Rightarrow> int" where
  "pixel a r c = arr_data a ! r ! c"

definition covers :: "mask \<Rightarrow> nat \<Rightarrow> nat \<Rightarrow> bool" where
  "covers m r c = m ! r ! c"

definition has_shape :: "nat \<Rightarrow> nat \<Rightarrow> 'a list list \<Rightarrow> bool" where
  "has_shape h w g = (length g = h \<and> list_all (\<lambda>row. length row = w) g)"

subsection \<open>The mask compositor (predict, lines 177--187)\<close>

type_synonym box = "rat \<times> rat \<times> rat \<times> rat"

text \<open>
  \<^verbatim>\<open>for i, (box, mask) in enumerate(zip(boxes, masks)):\<close>
  \<^verbatim>\<open>    if isinstance(mask, torch.Tensor): mask = mask.cpu().numpy().astype(dtype)\<close>
  \<^verbatim>\<open>    mask_overlay += ((mask > 0) * (i + 1)).astype(dtype)\<close>
  The loop runs over the zipped pairs with the running index \<open>i\<close>; every mask is a
  slice of a torch tensor, so the conversion always happens.
\<close>

fun overlay_loop :: "dtype \<Rightarrow> nat \<Rightarrow> (box \<times> mask) list \<Rightarrow> ndarray \<Rightarrow> error + ndarray" where
  "overlay_loop dt i [] mask_overlay = Inr mask_overlay"
| "overlay_loop dt i ((bx, m) # rest) mask_overlay =
     (case iadd mask_overlay
             (astype dt (bool_times (gt0 (mask_astype dt m)) (int i + 1))) of
        Inl e \<Rightarrow> Inl e
      | Inr mask_overlay' \<Rightarrow> overlay_loop dt (i + 1) rest mask_overlay')"

definition int64_ok :: "int \<Rightarrow> bool" where
  "int64_ok k = (- (2 ^ 63) \<le> k \<and> k < 2 ^ 63)"

definition binarize :: "ndarray \<Rightarrow> int \<Rightarrow> error + ndarray" where
  \<comment> \<open>\<^verbatim>\<open>(mask_overlay > 0) * mask_multiplier\<close>; NumPy 2 raises OverflowError for a Python
      int outside int64\<close>
  "binarize mask_overlay mask_multiplier =
     (if int64_ok mask_multiplier then Inr (bool_times (gt0 mask_overlay) mask_multiplier)
      else Inl (OverflowError ''Python integer out of bounds for int64''))"

subsection \<open>Images, rasters and the session\<close>

record pil_image =
  pil_size :: "nat \<times> nat"
  pil_pixels :: "int list list list"

record raster =
  r_bands :: "int list list list"
  r_height :: nat
  r_width :: nat
  r_crs :: string
  r_transform :: "rat list"

text \<open>
  \<^verbatim>\<open>src.read()\<close> returns the bands first; \<^verbatim>\<open>image_np = src.read().transpose((1, 2, 0))\<close>
  only reorders the axes, so \<^verbatim>\<open>image_np[..., 0]\<close> is the first band, a plane of
  \<open>r_height\<close> rows and \<open>r_width\<close> columns, and \<^verbatim>\<open>image_np[:, :, :3]\<close> the first three.
\<close>

datatype image_arg = Path string | InMemory pil_image

datatype retval = PyNone | Results "mask list" "box list" "string list" "rat list"

text \<open>
  What a call leaves behind besides its result: the lines it prints and the calls that
  leave the file, in order. \<open>ArrayToImage\<close> carries the arguments of
  \<^verbatim>\<open>array_to_image\<close>: the array, the output path, the source path and the dtype keyword.
\<close>

datatype event =
    Print string
  | Downloaded string
  | RasterOpened string
  | DetectorRun
  | SegmenterRun
  | ArrayToImage ndarray string "string option" "dtype option"
  | RasterWritten string ndarray string "rat list"
  | PltFigure
  | PltImshowImage pil_image
  | PltAddPatch box
  | PltImshowArray ndarray
  | PltTitle string
  | PltAxis
  | BlendImages

record session =
  self_source :: "string option"
  self_image :: "pil_image option"
  self_masks :: "mask list option"
  self_boxes :: "box list option"
  self_phrases :: "string list option"
  self_logits :: "rat list option"
  self_prediction :: "ndarray option"

record 'a outcome =
  out_session :: session
  out_trace :: "event list"
  out_result :: "error + 'a"

text \<open>
  The calls that leave the file. \<open>groundingdino_predict\<close> stands for
  \<^verbatim>\<open>transform_image\<close> followed by GroundingDINO's \<^verbatim>\<open>predict\<close>; \<open>sam_predict\<close> for
  \<^verbatim>\<open>set_image\<close>, \<^verbatim>\<open>apply_boxes_torch\<close> and \<^verbatim>\<open>predict_torch\<close> with
  \<^verbatim>\<open>multimask_output=False\<close>, whose result has a singleton second axis that
  \<^verbatim>\<open>squeeze(1)\<close> drops: one H x W mask per entry. \<open>path_exists\<close> is
  \<^verbatim>\<open>os.path.exists\<close> at the moment \<^verbatim>\<open>predict\<close> asks.
\<close>

record env =
  download_file :: "string \<Rightarrow> error + string"
  path_exists :: "string \<Rightarrow> bool"
  rasterio_read :: "string \<Rightarrow> error + raster"
  rasterio_write :: "string \<Rightarrow> ndarray \<Rightarrow> string \<Rightarrow> rat list \<Rightarrow> error + unit"
  Image_fromarray :: "int list list list \<Rightarrow> error + pil_image"
  groundingdino_predict ::
    "pil_image \<Rightarrow> string \<Rightarrow> rat \<Rightarrow> rat \<Rightarrow> error + (box list \<times> rat list \<times> string list)"
  sam_predict :: "pil_image \<Rightarrow> box list \<Rightarrow> error + mask list"
  array_to_image :: "ndarray \<Rightarrow> string \<Rightarrow> string option \<Rightarrow> dtype option \<Rightarrow> error + unit"
  blend_images :: "ndarray \<Rightarrow> pil_image \<Rightarrow> error + ndarray"
  load_model_hf :: "error + unit"
  load_sam :: "string \<Rightarrow> error + unit"

subsection \<open>Construction (lines 34--38, 71--100)\<close>

definition SAM_MODELS :: "string list" where
  "SAM_MODELS = [''vit_h'', ''vit_l'', ''vit_b'']"

definition init_session :: session where
  "init_session =
     \<lparr>self_source = None, self_image = None, self_masks = None, self_boxes = None,
      self_phrases = None, self_logits = None, self_prediction = None\<rparr>"

definition LangSAM_init :: "env \<Rightarrow> string \<Rightarrow> error + session" where
  "LangSAM_init env model_type =
     (case load_model_hf env of
        Inl e \<Rightarrow> Inl e
      | Inr _ \<Rightarrow>
          if model_type \<notin> set SAM_MODELS then Inl (KeyError model_type)
          else (case load_sam env model_type of
                  Inl e \<Rightarrow> Inl e
                | Inr _ \<Rightarrow> Inr init_session))"

subsection \<open>The two adapters (lines 102--129)\<close>

definition box_cxcywh_to_xyxy :: "box \<Rightarrow> box" where
  "box_cxcywh_to_xyxy b =
     (case b of (x_c, y_c, w, h) \<Rightarrow>
        (x_c - w / 2, y_c - h / 2, x_c + w / 2, y_c + h / 2))"

definition scale_box :: "nat \<Rightarrow> nat \<Rightarrow> box \<Rightarrow> box" where
  "scale_box W H b =
     (case b of (x0, y0, x1, y1) \<Rightarrow> (x0 * of_nat W, y0 * of_nat H, x1 * of_nat W, y1 * of_nat H))"

definition predict_dino ::
  "env \<Rightarrow> pil_image \<Rightarrow> string \<Rightarrow> rat \<Rightarrow> rat \<Rightarrow> error + (box list \<times> rat list \<times> string list)" where
  "predict_dino env image_pil text_prompt box_threshold text_threshold =
     (case groundingdino_predict env image_pil text_prompt box_threshold text_threshold of
        Inl e \<Rightarrow> Inl e
      | Inr (boxes, logits, phrases) \<Rightarrow>
          (case pil_size image_pil of (W, H) \<Rightarrow>
             Inr (map (\<lambda>b. scale_box W H (box_cxcywh_to_xyxy b)) boxes, logits, phrases)))"

definition predict_sam :: "env \<Rightarrow> pil_image \<Rightarrow> box list \<Rightarrow> error + mask list" where
  "predict_sam env image_pil boxes = sam_predict env image_pil boxes"

definition nelement :: "box list \<Rightarrow> nat" where
  \<comment> \<open>the boxes tensor has shape (n, 4)\<close>
  "nelement boxes = 4 * length boxes"

subsection \<open>predict (lines 131--200)\<close>

record predict_args =
  image_in :: image_arg
  text_prompt :: string
  box_threshold :: rat
  text_threshold :: rat
  output_path :: "string option"
  mask_multiplier :: int
  dtype :: dtype
  return_results :: bool

definition default_args :: "image_arg \<Rightarrow> string \<Rightarrow> rat \<Rightarrow> rat \<Rightarrow> predict_args" where
  \<comment> \<open>the keyword defaults of the signature\<close>
  "default_args img prompt bt tt =
     \<lparr>image_in = img, text_prompt = prompt, box_threshold = bt, text_threshold = tt,
      output_path = None, mask_multiplier = 255, dtype = UInt8, return_results = False\<rparr>"

definition startswith :: "string \<Rightarrow> string \<Rightarrow> bool" where
  "startswith s p = (take (length p) s = p)"

definition no_objects_msg :: string where
  "no_objects_msg = ''No objects found in the image.''"

definition stop :: "session \<Rightarrow> event list \<Rightarrow> error \<Rightarrow> 'a outcome" where
  \<comment> \<open>an exception leaves the function: the session as it is by then, the trace so far\<close>
  "stop self tr e = \<lparr>out_session = self, out_trace = tr, out_result = Inl e\<rparr>"

text \<open>
  Lines 145--161: the input. A string is a path or URL; anything else is taken as the PIL
  image itself, and then \<^verbatim>\<open>image_np\<close> is never bound (\<open>None\<close> below).
\<close>

definition load_image :: "env \<Rightarrow> session \<Rightarrow> image_arg \<Rightarrow> (pil_image \<times> raster option) outcome" where
  "load_image env self img =
     (case img of
        InMemory image_pil \<Rightarrow>
          \<lparr>out_session = self, out_trace = [], out_result = Inr (image_pil, None)\<rparr>
      | Path url \<Rightarrow>
          (let tr = (if startswith url ''http'' then [Downloaded url] else []) in
           case (if startswith url ''http'' then download_file env url else Inr url) of
             Inl e \<Rightarrow> stop self tr e
           | Inr p \<Rightarrow>
               if \<not> path_exists env p
               then stop self tr (ValueError (''Input path '' @ p @ '' does not exist.''))
               else
                 (let self1 = self\<lparr>self_source := Some p\<rparr> in
                  case rasterio_read env p of
                    Inl e \<Rightarrow> stop self1 (tr @ [RasterOpened p]) e
                  | Inr src \<Rightarrow>
                      (case Image_fromarray env (take 3 (r_bands src)) of
                         Inl e \<Rightarrow> stop self1 (tr @ [RasterOpened p]) e
                       | Inr image_pil \<Rightarrow>
                           \<lparr>out_session = self1, out_trace = tr @ [RasterOpened p],
                            out_result = Inr (image_pil, Some src)\<rparr>))))"

text \<open>
  Lines 177--200: the overlay, the optional write and the assignments to \<^verbatim>\<open>self\<close>.
\<close>

definition finish ::
  "env \<Rightarrow> session \<Rightarrow> event list \<Rightarrow> predict_args \<Rightarrow> raster option \<Rightarrow>
   box list \<Rightarrow> rat list \<Rightarrow> string list \<Rightarrow> mask list \<Rightarrow> retval outcome" where
  "finish env self tr a image_np boxes logits phrases masks =
     (case image_np of
        None \<Rightarrow> stop self tr (UnboundLocalError ''image_np'')
      | Some src \<Rightarrow>
          if r_bands src = [] then stop self tr (IndexError ''index 0 is out of bounds'')
          else
            (case overlay_loop (dtype a) 0 (zip boxes masks)
                    (zeros (r_height src) (r_width src) (dtype a)) of
               Inl e \<Rightarrow> stop self tr e
             | Inr acc \<Rightarrow>
                 (case binarize acc (mask_multiplier a) of
                    Inl e \<Rightarrow> stop self tr e
                  | Inr mask_overlay \<Rightarrow>
                      (let tr' = tr @ (case output_path a of
                                         None \<Rightarrow> []
                                       | Some f \<Rightarrow>
                                           [ArrayToImage mask_overlay f (self_source self)
                                              (Some (dtype a))]) in
                       case (case output_path a of
                               None \<Rightarrow> Inr ()
                             | Some f \<Rightarrow>
                                 array_to_image env mask_overlay f (self_source self)
                                   (Some (dtype a))) of
                         Inl e \<Rightarrow> stop self tr' e
                       | Inr _ \<Rightarrow>
                           \<lparr>out_session =
                              self\<lparr>self_masks := Some masks, self_boxes := Some boxes,
                                   self_phrases := Some phrases, self_logits := Some logits,
                                   self_prediction := Some mask_overlay\<rparr>,
                            out_trace = tr',
                            out_result =
                              Inr (if return_results a
                                   then Results masks boxes phrases logits else PyNone)\<rparr>))))"

text \<open>
  Lines 165--175: detection, segmentation when \<^verbatim>\<open>len(boxes) > 0\<close>, and the early
  return when \<^verbatim>\<open>boxes.nelement() == 0\<close>.
\<close>

definition run_models ::
  "env \<Rightarrow> session \<Rightarrow> event list \<Rightarrow> predict_args \<Rightarrow> pil_image \<Rightarrow> raster option \<Rightarrow>
   retval outcome" where
  "run_models env self tr a image_pil image_np =
     (case predict_dino env image_pil (text_prompt a) (box_threshold a) (text_threshold a) of
        Inl e \<Rightarrow> stop self (tr @ [DetectorRun]) e
      | Inr (boxes, logits, phrases) \<Rightarrow>
          (let tr' = tr @ [DetectorRun] @ (if length boxes > 0 then [SegmenterRun] else []) in
           case (if length boxes > 0 then predict_sam env image_pil boxes else Inr []) of
             Inl e \<Rightarrow> stop self tr' e
           | Inr masks \<Rightarrow>
               if nelement boxes = 0
               then \<lparr>out_session = self, out_trace = tr' @ [Print no_objects_msg],
                     out_result = Inr PyNone\<rparr>
               else finish env self tr' a image_np boxes logits phrases masks))"

definition predict :: "env \<Rightarrow> session \<Rightarrow> predict_args \<Rightarrow> retval outcome" where
  "predict env self a =
     (let ld = load_image env self (image_in a) in
      case out_result ld of
        Inl e \<Rightarrow> stop (out_session ld) (out_trace ld) e
      | Inr (image_pil, image_np) \<Rightarrow>
          run_models env ((out_session ld)\<lparr>self_image := Some image_pil\<rparr>) (out_trace ld)
            a image_pil image_np)"

subsection \<open>show\_anns (lines 202--271)\<close>

record show_args =
  add_boxes :: bool
  title :: "string option"
  show_output :: "string option"
  blend :: bool

definition default_show_args :: show_args where
  "default_show_args = \<lparr>add_boxes = True, title = None, show_output = None, blend = True\<rparr>"

text \<open>
  \<^verbatim>\<open>anns = self.prediction\<close>; the two guards test \<^verbatim>\<open>anns is None\<close> and
  \<^verbatim>\<open>len(anns) == 0\<close>, the number of rows of the stored overlay. Past the guards the
  figure is drawn: the image, one rectangle per stored box, the overlay, and the export
  when an output path is given.
\<close>

definition show_anns :: "env \<Rightarrow> session \<Rightarrow> show_args \<Rightarrow> unit outcome" where
  "show_anns env self a =
     (case self_prediction self of
        None \<Rightarrow>
          \<lparr>out_session = self, out_trace = [Print ''Please run predict() first.''],
           out_result = Inr ()\<rparr>
      | Some anns \<Rightarrow>
          if length (arr_data anns) = 0
          then \<lparr>out_session = self, out_trace = [Print no_objects_msg], out_result = Inr ()\<rparr>
          else
            (case self_image self of
               None \<Rightarrow> stop self [PltFigure] (TypeError ''Image data of dtype object'')
             | Some img \<Rightarrow>
                 (case (if add_boxes a then self_boxes self else Some []) of
                    None \<Rightarrow>
                      stop self [PltFigure, PltImshowImage img]
                        (TypeError ''NoneType object is not iterable'')
                  | Some bxs \<Rightarrow>
                      (let tr = [PltFigure, PltImshowImage img] @ map PltAddPatch bxs
                                @ [PltImshowArray anns]
                                @ (case title a of None \<Rightarrow> [] | Some t \<Rightarrow> [PltTitle t])
                                @ [PltAxis] in
                       case show_output a of
                         None \<Rightarrow> \<lparr>out_session = self, out_trace = tr, out_result = Inr ()\<rparr>
                       | Some f \<Rightarrow>
                           (case (if blend a then blend_images env anns img else Inr anns) of
                              Inl e \<Rightarrow> stop self (tr @ [BlendImages]) e
                            | Inr array \<Rightarrow>
                                (let tr' = tr @ (if blend a then [BlendImages] else [])
                                           @ [ArrayToImage array f (self_source self) None] in
                                 case array_to_image env array f (self_source self) None of
                                   Inl e \<Rightarrow> stop self tr' e
                                 | Inr _ \<Rightarrow>
                                     \<lparr>out_session = self, out_trace = tr',
                                      out_result = Inr ()\<rparr>))))))"

subsection \<open>The command line entry point (lines 274--335)\<close>

record cli_args =
  cli_image :: string
  cli_prompt :: string
  cli_box_threshold :: rat
  cli_text_threshold :: rat

text \<open>
  \<^verbatim>\<open>for i in range(len(boxes)): mask = masks[i].cpu().numpy();\<close>
  \<^verbatim>\<open>mask_overlay += (mask > 0) * (i + 1)\<close> on an int64 accumulator. The mask is a boolean
  array here, and \<^verbatim>\<open>mask > 0\<close> is the mask itself.
\<close>

fun main_loop :: "mask list \<Rightarrow> nat list \<Rightarrow> ndarray \<Rightarrow> error + ndarray" where
  "main_loop masks [] mask_overlay = Inr mask_overlay"
| "main_loop masks (i # rest) mask_overlay =
     (if length masks \<le> i then Inl (IndexError ''index out of range'')
      else case iadd mask_overlay
                  (bool_times (map (map (\<lambda>b. (0::int) < (if b then 1 else 0))) (masks ! i))
                     (int i + 1)) of
             Inl e \<Rightarrow> Inl e
           | Inr mask_overlay' \<Rightarrow> main_loop masks rest mask_overlay')"

definition main_write ::
  "env \<Rightarrow> event list \<Rightarrow> raster \<Rightarrow> ndarray option \<Rightarrow> event list \<times> (error + unit)" where
  \<comment> \<open>lines 319--335; \<open>None\<close> is the branch that never bound \<^verbatim>\<open>mask_overlay\<close>\<close>
  "main_write env tr src mask_overlay =
     (case mask_overlay of
        None \<Rightarrow> (tr, Inl (UnboundLocalError ''mask_overlay''))
      | Some acc \<Rightarrow>
          (let final = astype UInt8 (bool_times (gt0 acc) 255) in
           (tr @ [RasterWritten ''mask.tif'' final (r_crs src) (r_transform src)],
            rasterio_write env ''mask.tif'' final (r_crs src) (r_transform src))))"

definition main :: "env \<Rightarrow> cli_args \<Rightarrow> event list \<times> (error + unit)" where
  "main env args =
     (case rasterio_read env (cli_image args) of
        Inl e \<Rightarrow> ([RasterOpened (cli_image args)], Inl e)
      | Inr src \<Rightarrow>
          (case LangSAM_init env ''vit_h'' of
             Inl e \<Rightarrow> ([RasterOpened (cli_image args)], Inl e)
           | Inr model \<Rightarrow>
               (case Image_fromarray env (take 3 (r_bands src)) of
                  Inl e \<Rightarrow> ([RasterOpened (cli_image args)], Inl e)
                | Inr image_pil \<Rightarrow>
                    (let r = predict env model
                               (default_args (InMemory image_pil) (cli_prompt args)
                                  (cli_box_threshold args) (cli_text_threshold args));
                         tr = RasterOpened (cli_image args) # out_trace r in
                     case out_result r of
                       Inl e \<Rightarrow> (tr, Inl e)
                     | Inr PyNone \<Rightarrow>
                         (tr, Inl (TypeError ''cannot unpack non-iterable NoneType object''))
                     | Inr (Results masks boxes phrases logits) \<Rightarrow>
                         if nelement boxes = 0
                         then main_write env (tr @ [Print no_objects_msg]) src None
                         else if r_bands src = []
                         then (tr, Inl (IndexError ''index 0 is out of bounds''))
                         else
                           (case main_loop masks [0..<length boxes]
                                   (zeros (r_height src) (r_width src) Int64) of
                              Inl e \<Rightarrow> (tr, Inl e)
                            | Inr acc \<Rightarrow> main_write env tr src (Some acc))))))"

subsection \<open>What the compositor is expected to compute\<close>

text \<open>
  The sum of the labels \<open>i + 1\<close> of the masks that cover pixel \<open>(r, c)\<close>, counting the
  masks from index \<open>i\<close>: the value the accumulator holds when nothing overflows.
\<close>

fun label_sum :: "nat \<Rightarrow> mask list \<Rightarrow> nat \<Rightarrow> nat \<Rightarrow> int" where
  "label_sum i [] r c = 0"
| "label_sum i (m # ms) r c =
     (if covers m r c then int i + 1 else 0) + label_sum (i + 1) ms r c"

definition label_term :: "dtype \<Rightarrow> nat \<Rightarrow> mask \<Rightarrow> ndarray" where
  \<comment> \<open>the summand of one loop iteration\<close>
  "label_term dt i m = astype dt (bool_times (gt0 (mask_astype dt m)) (int i + 1))"

subsection \<open>Deterministic stand-ins for the external calls\<close>

text \<open>
  A 2 x 2 three-band GeoTIFF per path, a detector that answers from the prompt alone and
  a segmenter that answers from the boxes alone. Two files exist, \<^verbatim>\<open>a.tif\<close> and
  \<^verbatim>\<open>b.tif\<close>.
\<close>

definition tile :: "int \<Rightarrow> raster" where
  "tile v =
     \<lparr>r_bands = [[[v, v], [v, v]], [[v, v], [v, v]], [[v, v], [v, v]]],
      r_height = 2, r_width = 2, r_crs = ''EPSG:4326'', r_transform = [1, 0, 0, 0, -1, 2]\<rparr>"

definition tile_image :: "int \<Rightarrow> pil_image" where
  "tile_image v = \<lparr>pil_size = (2, 2), pil_pixels = r_bands (tile v)\<rparr>"

definition stub_env ::
  "(string \<Rightarrow> box list \<times> rat list \<times> string list) \<Rightarrow> (box list \<Rightarrow> mask list) \<Rightarrow> env" where
  "stub_env det seg =
     \<lparr>download_file = (\<lambda>url. Inr ''/tmp/downloaded.tif''),
      path_exists = (\<lambda>p. p = ''a.tif'' \<or> p = ''b.tif''),
      rasterio_read =
        (\<lambda>p. if p = ''a.tif'' then Inr (tile 10)
             else if p = ''b.tif'' then Inr (tile 20)
             else Inl (ExternalError ''RasterioIOError'')),
      rasterio_write = (\<lambda>p arr crs tf. Inr ()),
      Image_fromarray = (\<lambda>bands. Inr \<lparr>pil_size = (2, 2), pil_pixels = bands\<rparr>),
      groundingdino_predict = (\<lambda>img prompt bt tt. Inr (det prompt)),
      sam_predict = (\<lambda>img bxs. Inr (seg bxs)),
      array_to_image = (\<lambda>arr p src dt. Inr ()),
      blend_images = (\<lambda>arr img. Inr arr),
      load_model_hf = Inr (),
      load_sam = (\<lambda>model_type. Inr ())\<rparr>"

definition det_tree :: "string \<Rightarrow> box list \<times> rat list \<times> string list" where
  \<comment> \<open>one detection for the prompt "tree", none for any other prompt\<close>
  "det_tree prompt =
     (if prompt = ''tree'' then ([(1 / 2, 1 / 2, 1, 1)], [9 / 10], [''tree''])
      else ([], [], []))"

definition seg_full :: "box list \<Rightarrow> mask list" where
  \<comment> \<open>every box is segmented as the upper row of the tile\<close>
  "seg_full bxs = map (\<lambda>b. [[True, True], [False, False]]) bxs"

definition det_two :: "string \<Rightarrow> box list \<times> rat list \<times> string list" where
  "det_two prompt =
     ([(1 / 4, 1 / 4, 1 / 2, 1 / 2), (1 / 2, 1 / 2, 1, 1)], [9 / 10, 8 / 10], [''tree'', ''tree''])"

definition seg_overlap :: "box list \<Rightarrow> mask list" where
  \<comment> \<open>two masks whose only common pixel is (0, 0)\<close>
  "seg_overlap bxs = [[[True, True], [False, False]], [[True, False], [True, False]]]"

definition det_many :: "string \<Rightarrow> box list \<times> rat list \<times> string list" where
  \<comment> \<open>255 detections\<close>
  "det_many prompt =
     (replicate 255 (1 / 2, 1 / 2, 1, 1), replicate 255 (9 / 10), replicate 255 ''tree'')"

definition seg_first_last :: "box list \<Rightarrow> mask list" where
  \<comment> \<open>255 masks; the first (label 1) and the last (label 255) cover pixel (0, 0), the
      others cover nothing\<close>
  "seg_first_last bxs =
     [[True, False], [False, False]]
     # replicate 253 [[False, False], [False, False]]
     @ [[[True, False], [False, False]]]"

definition half :: rat where
  "half = 1 / 2"

definition env_tree :: env where
  "env_tree = stub_env det_tree seg_full"

definition env_many :: env where
  "env_many = stub_env det_many seg_first_last"

definition boxes_many :: "box list" where
  \<comment> \<open>the 255 boxes of \<open>det_many\<close> in pixel corner coordinates\<close>
  "boxes_many = replicate 255 (0, 0, 2, 2)"

definition session_a :: session where
  \<comment> \<open>the session after a first prediction on a.tif that finds one tree\<close>
  "session_a =
     out_session (predict env_tree init_session (default_args (Path ''a.tif'') ''tree'' half half))"

definition session_b :: session where
  \<comment> \<open>the same session after a second prediction, on b.tif, that finds nothing\<close>
  "session_b =
     out_session (predict env_tree session_a (default_args (Path ''b.tif'') ''whale'' half half))"

section \<open>Lemmas\<close>

subsection \<open>The dtype cast\<close>

lemma wrap_cong: "wrap dt (wrap dt a + b) = wrap dt (a + b)"
proof (cases "is_signed dt")
  case False
  then show ?thesis by (simp add: wrap_def mod_add_left_eq)
next
  case True
  have "(((a + 2 ^ (bits dt - 1)) mod 2 ^ bits dt - 2 ^ (bits dt - 1)) + b + 2 ^ (bits dt - 1)) mod 2 ^ bits dt
        = ((a + 2 ^ (bits dt - 1)) mod 2 ^ bits dt + b) mod (2 ^ bits dt :: int)"
    by (simp add: algebra_simps)
  also have "\<dots> = (a + 2 ^ (bits dt - 1) + b) mod 2 ^ bits dt"
    by (simp add: mod_add_left_eq)
  finally show ?thesis using True by (simp add: wrap_def algebra_simps)
qed

lemma wrap_idem: "wrap dt (wrap dt a) = wrap dt a"
  using wrap_cong [of dt a 0] by simp

lemma wrap_cong2: "wrap dt (a + wrap dt b) = wrap dt (a + b)"
  using wrap_cong [of dt b a] by (simp add: add.commute)

lemma wrap_small: "0 \<le> v \<Longrightarrow> v < 128 \<Longrightarrow> wrap dt v = v"
  by (cases dt) (simp_all add: wrap_def)

lemma wrap_0: "wrap dt 0 = 0" by (simp add: wrap_small)
subsection \<open>In-place addition and the accumulator loop\<close>

lemma those_bcast_same:
  "length A = length X \<Longrightarrow> \<forall>(a, x) \<in> set (zip A X). length x = length a \<Longrightarrow>
   those (map2 (\<lambda>a r. bcast (length a) r) A X) = Some X"
  by (induction A X rule: list_induct2) (auto simp: bcast_def)

lemma iadd_same_shape:
  assumes "has_shape h w (arr_data acc)" "has_shape h w (arr_data x)" "arr_dtype x = arr_dtype acc"
  shows "iadd acc x = Inr \<lparr>arr_dtype = arr_dtype acc,
            arr_data = map2 (map2 (\<lambda>u v. wrap (arr_dtype acc) (u + v))) (arr_data acc) (arr_data x)\<rparr>"
proof -
  have len: "length (arr_data acc) = length (arr_data x)"
    using assms by (simp add: has_shape_def)
  have rows: "\<forall>(a, r) \<in> set (zip (arr_data acc) (arr_data x)). length r = length a"
  proof clarify
    fix a r assume "(a, r) \<in> set (zip (arr_data acc) (arr_data x))"
    then have "a \<in> set (arr_data acc)" "r \<in> set (arr_data x)"
      by (auto dest: set_zip_leftD set_zip_rightD)
    with assms show "length r = length a" by (simp add: has_shape_def list_all_iff)
  qed
  have outer: "bcast (length (arr_data acc)) (arr_data x) = Some (arr_data x)"
    using len by (simp add: bcast_def)
  show ?thesis
    using assms(3) outer those_bcast_same [OF len rows]
    by (simp add: iadd_def)
qed

lemma has_shape_zeros: "has_shape h w (arr_data (zeros h w dt))"
  by (simp add: has_shape_def zeros_def list_all_iff)

lemma has_shape_map2:
  "has_shape h w a \<Longrightarrow> has_shape h w b \<Longrightarrow> has_shape h w (map2 (map2 f) a b)"
  by (simp add: has_shape_def list_all_length)

lemma pixel_map2:
  assumes "has_shape h w a" "has_shape h w b" "r < h" "c < w"
  shows "map2 (map2 f) a b ! r ! c = f (a ! r ! c) (b ! r ! c)"
  using assms by (simp add: has_shape_def list_all_length)

lemma label_term_shape: "has_shape h w m \<Longrightarrow> has_shape h w (arr_data (label_term dt i m))"
  by (simp add: label_term_def astype_def bool_times_def gt0_def mask_astype_def has_shape_def list_all_iff)

lemma label_term_dtype: "arr_dtype (label_term dt i m) = dt"
  by (simp add: label_term_def astype_def)

lemma label_term_pixel:
  "has_shape h w m \<Longrightarrow> r < h \<Longrightarrow> c < w \<Longrightarrow>
   pixel (label_term dt i m) r c = wrap dt (if covers m r c then int i + 1 else 0)"
  by (simp add: label_term_def astype_def bool_times_def gt0_def mask_astype_def pixel_def
      covers_def has_shape_def list_all_length wrap_small)

lemma iadd_label_term:
  assumes "has_shape h w (arr_data acc)" "arr_dtype acc = dt" "has_shape h w m"
  shows "\<exists>acc'. iadd acc (label_term dt i m) = Inr acc' \<and> arr_dtype acc' = dt \<and>
           has_shape h w (arr_data acc') \<and>
           (\<forall>r c. r < h \<longrightarrow> c < w \<longrightarrow>
              pixel acc' r c = wrap dt (pixel acc r c + (if covers m r c then int i + 1 else 0)))"
proof -
  let ?x = "label_term dt i m"
  have sx: "has_shape h w (arr_data ?x)" using assms(3) by (rule label_term_shape)
  have dx: "arr_dtype ?x = arr_dtype acc" using assms(2) by (simp add: label_term_dtype)
  note eq = iadd_same_shape [OF assms(1) sx dx]
  have px: "\<And>r c. r < h \<Longrightarrow> c < w \<Longrightarrow>
      pixel ?x r c = wrap dt (if covers m r c then int i + 1 else 0)"
    using assms(3) by (rule label_term_pixel)
  show ?thesis
  proof (intro exI conjI allI impI)
    show "iadd acc ?x = Inr \<lparr>arr_dtype = arr_dtype acc,
            arr_data = map2 (map2 (\<lambda>u v. wrap (arr_dtype acc) (u + v))) (arr_data acc) (arr_data ?x)\<rparr>"
      by (rule eq)
    show "arr_dtype \<lparr>arr_dtype = arr_dtype acc,
            arr_data = map2 (map2 (\<lambda>u v. wrap (arr_dtype acc) (u + v))) (arr_data acc) (arr_data ?x)\<rparr> = dt"
      using assms(2) by simp
    show "has_shape h w (arr_data \<lparr>arr_dtype = arr_dtype acc,
            arr_data = map2 (map2 (\<lambda>u v. wrap (arr_dtype acc) (u + v))) (arr_data acc) (arr_data ?x)\<rparr>)"
      using has_shape_map2 [OF assms(1) sx] by simp
  next
    fix r c assume rc: "r < h" "c < w"
    have "pixel \<lparr>arr_dtype = arr_dtype acc,
            arr_data = map2 (map2 (\<lambda>u v. wrap (arr_dtype acc) (u + v))) (arr_data acc) (arr_data ?x)\<rparr> r c
          = wrap dt (pixel acc r c + pixel ?x r c)"
      using pixel_map2 [OF assms(1) sx rc] assms(2) by (simp add: pixel_def)
    also have "\<dots> = wrap dt (pixel acc r c + (if covers m r c then int i + 1 else 0))"
      using px [OF rc] by (simp only: wrap_cong2)
    finally show "pixel \<lparr>arr_dtype = arr_dtype acc,
            arr_data = map2 (map2 (\<lambda>u v. wrap (arr_dtype acc) (u + v))) (arr_data acc) (arr_data ?x)\<rparr> r c
          = wrap dt (pixel acc r c + (if covers m r c then int i + 1 else 0))" .
  qed
qed

lemma overlay_loop_pixel:
  assumes "has_shape h w (arr_data acc)" "arr_dtype acc = dt"
    and "list_all (\<lambda>bm. has_shape h w (snd bm)) bms" and "r < h" "c < w"
    and "wrap dt (pixel acc r c) = pixel acc r c"
  shows "\<exists>acc'. overlay_loop dt i bms acc = Inr acc' \<and> arr_dtype acc' = dt \<and>
           has_shape h w (arr_data acc') \<and>
           pixel acc' r c = wrap dt (pixel acc r c + label_sum i (map snd bms) r c)"
  using assms(1-3,6)
proof (induction bms arbitrary: i acc)
  case Nil
  then show ?case by simp
next
  case (Cons bm bms)
  obtain bx m where bm: "bm = (bx, m)" by (cases bm)
  from Cons.prems bm have sm: "has_shape h w m"
    and rest: "list_all (\<lambda>bm. has_shape h w (snd bm)) bms"
    by simp_all
  from iadd_label_term [OF Cons.prems(1,2) sm, of i]
  obtain acc1 where a1: "iadd acc (label_term dt i m) = Inr acc1" "arr_dtype acc1 = dt"
      "has_shape h w (arr_data acc1)"
      "pixel acc1 r c = wrap dt (pixel acc r c + (if covers m r c then int i + 1 else 0))"
    using assms(4,5) by blast
  have inr: "wrap dt (pixel acc1 r c) = pixel acc1 r c"
    unfolding a1(4) by (rule wrap_idem)
  from Cons.IH [OF a1(3) a1(2) rest inr, of "i + 1"]
  obtain acc' where a2: "overlay_loop dt (i + 1) bms acc1 = Inr acc'" "arr_dtype acc' = dt"
      "has_shape h w (arr_data acc')"
      "pixel acc' r c = wrap dt (pixel acc1 r c + label_sum (i + 1) (map snd bms) r c)"
    by blast
  have "wrap dt (pixel acc1 r c + label_sum (i + 1) (map snd bms) r c)
        = wrap dt (pixel acc r c + (if covers m r c then int i + 1 else 0)
                   + label_sum (i + 1) (map snd bms) r c)"
    unfolding a1(4) by (rule wrap_cong)
  with a1(1) a2 bm show ?case
    by (simp add: label_term_def add.assoc)
qed

lemma pixel_zeros: "r < h \<Longrightarrow> c < w \<Longrightarrow> pixel (zeros h w dt) r c = 0"
  by (simp add: pixel_def zeros_def)

lemma overlay_from_zeros:
  assumes "list_all (has_shape h w) masks" "length boxes = length masks" "r < h" "c < w"
  shows "\<exists>acc. overlay_loop dt 0 (zip boxes masks) (zeros h w dt) = Inr acc \<and>
           arr_dtype acc = dt \<and> has_shape h w (arr_data acc) \<and>
           pixel acc r c = wrap dt (label_sum 0 masks r c)"
proof -
  have sh: "list_all (\<lambda>bm. has_shape h w (snd bm)) (zip boxes masks)"
    using assms(1) by (auto simp: list_all_iff dest: set_zip_rightD)
  have z: "wrap dt (pixel (zeros h w dt) r c) = pixel (zeros h w dt) r c"
    using assms(3,4) by (simp add: pixel_zeros wrap_0)
  have dz: "arr_dtype (zeros h w dt) = dt" by (simp add: zeros_def)
  from overlay_loop_pixel [OF has_shape_zeros dz sh assms(3,4) z, of 0]
  show ?thesis using assms(2-4) by (simp add: pixel_zeros)
qed

lemma binarize_pixel:
  assumes "has_shape h w (arr_data acc)" "r < h" "c < w"
  shows "pixel (bool_times (gt0 acc) k) r c = (if 0 < pixel acc r c then k else 0)"
  using assms by (simp add: bool_times_def gt0_def pixel_def has_shape_def list_all_length)

lemma label_sum_none:
  "(\<forall>j < length ms. \<not> covers (ms ! j) r c) \<Longrightarrow> label_sum i ms r c = 0"
proof (induction ms arbitrary: i)
  case Nil
  then show ?case by simp
next
  case (Cons m ms)
  from Cons.prems have "\<not> covers m r c" by auto
  moreover from Cons.prems have "\<forall>j < length ms. \<not> covers (ms ! j) r c" by auto
  ultimately show ?case using Cons.IH by simp
qed

lemma iadd_dtype: "iadd acc x = Inr acc' \<Longrightarrow> arr_dtype acc' = arr_dtype acc"
  by (auto simp: iadd_def split: if_splits option.splits)

lemma overlay_loop_dtype:
  "overlay_loop dt i bms acc = Inr acc' \<Longrightarrow> arr_dtype acc' = arr_dtype acc"
proof (induction bms arbitrary: i acc)
  case Nil
  then show ?case by simp
next
  case (Cons bm bms)
  obtain bx m where bm: "bm = (bx, m)" by (cases bm)
  from Cons.prems bm obtain acc1 where
    s1: "iadd acc (astype dt (bool_times (gt0 (mask_astype dt m)) (int i + 1))) = Inr acc1"
    and s2: "overlay_loop dt (i + 1) bms acc1 = Inr acc'"
    by (auto split: sum.splits)
  from Cons.IH [OF s2] iadd_dtype [OF s1] show ?case by simp
qed

lemma overlay_loop_total:
  assumes "has_shape h w (arr_data acc)" "arr_dtype acc = dt"
    and "list_all (\<lambda>bm. has_shape h w (snd bm)) bms"
  shows "\<exists>acc'. overlay_loop dt i bms acc = Inr acc' \<and> has_shape h w (arr_data acc')"
  using assms
proof (induction bms arbitrary: i acc)
  case Nil
  then show ?case by simp
next
  case (Cons bm bms)
  obtain bx m where bm: "bm = (bx, m)" by (cases bm)
  from Cons.prems bm have sm: "has_shape h w m"
    and rest: "list_all (\<lambda>bm. has_shape h w (snd bm)) bms"
    by simp_all
  from iadd_label_term [OF Cons.prems(1,2) sm, of i]
  obtain acc1 where a1: "iadd acc (label_term dt i m) = Inr acc1" "arr_dtype acc1 = dt"
      "has_shape h w (arr_data acc1)"
    by blast
  from Cons.IH [OF a1(3) a1(2) rest, of "i + 1"] a1(1) bm
  show ?case by (simp add: label_term_def)
qed

lemma overlay_total:
  assumes "list_all (has_shape h w) masks"
  shows "\<exists>acc. overlay_loop dt 0 (zip boxes masks) (zeros h w dt) = Inr acc \<and>
           has_shape h w (arr_data acc)"
proof -
  have sh: "list_all (\<lambda>bm. has_shape h w (snd bm)) (zip boxes masks)"
    using assms(1) by (auto simp: list_all_iff dest: set_zip_rightD)
  have dz: "arr_dtype (zeros h w dt) = dt" by (simp add: zeros_def)
  from overlay_loop_total [OF has_shape_zeros dz sh] show ?thesis .
qed

lemma label_sum_nonneg: "0 \<le> label_sum i ms r c"
  by (induction ms arbitrary: i) simp_all

subsection \<open>The stages of predict\<close>

lemmas model_defs = predict_def load_image_def run_models_def finish_def predict_dino_def
  predict_sam_def nelement_def startswith_def default_args_def stop_def binarize_def int64_ok_def
  init_session_def no_objects_msg_def box_cxcywh_to_xyxy_def scale_box_def

lemmas stub_defs = stub_env_def det_tree_def seg_full_def tile_def tile_image_def half_def
  det_two_def seg_overlap_def env_tree_def

lemmas array_defs = zeros_def mask_astype_def gt0_def bool_times_def astype_def bcast_def
  iadd_def wrap_def pixel_def covers_def

lemma stop_simps [simp]:
  "out_session (stop s tr e) = s" "out_trace (stop s tr e) = tr" "out_result (stop s tr e) = Inl e"
  by (simp_all add: stop_def)

lemma load_image_InMemory:
  "load_image env self (InMemory img) = \<lparr>out_session = self, out_trace = [], out_result = Inr (img, None)\<rparr>"
  by (simp add: load_image_def)

lemma load_image_frame:
  "self_masks (out_session (load_image env self img)) = self_masks self"
  "self_boxes (out_session (load_image env self img)) = self_boxes self"
  "self_phrases (out_session (load_image env self img)) = self_phrases self"
  "self_logits (out_session (load_image env self img)) = self_logits self"
  "self_prediction (out_session (load_image env self img)) = self_prediction self"
  by (simp_all add: load_image_def Let_def split: image_arg.splits sum.splits)

lemma load_image_trace:
  "set (out_trace (load_image env self img)) \<subseteq> range Downloaded \<union> range RasterOpened"
  by (auto simp: load_image_def Let_def split: image_arg.splits sum.splits if_splits)

lemma finish_frame_error:
  assumes "out_result (finish env self tr a image_np boxes logits phrases masks) = Inl e"
  shows "out_session (finish env self tr a image_np boxes logits phrases masks) = self"
  using assms
  by (auto simp: finish_def Let_def split: option.splits sum.splits if_splits)

lemma finish_trace:
  "Print m \<in> set (out_trace (finish env self tr a image_np boxes logits phrases masks))
     \<Longrightarrow> Print m \<in> set tr"
  by (auto simp: finish_def Let_def split: option.splits sum.splits if_splits)

lemma finish_unbound:
  "finish env self tr a None boxes logits phrases masks = stop self tr (UnboundLocalError ''image_np'')"
  by (simp add: finish_def)

lemma run_models_empty:
  assumes "predict_dino env image_pil (text_prompt a) (box_threshold a) (text_threshold a) = Inr ([], logits, phrases)"
  shows "run_models env self tr a image_pil image_np =
     \<lparr>out_session = self, out_trace = tr @ [DetectorRun, Print no_objects_msg], out_result = Inr PyNone\<rparr>"
  using assms by (simp add: run_models_def nelement_def)

lemma run_models_nonempty:
  assumes "predict_dino env image_pil (text_prompt a) (box_threshold a) (text_threshold a) = Inr (boxes, logits, phrases)"
    and "boxes \<noteq> []" and "predict_sam env image_pil boxes = Inr masks"
  shows "run_models env self tr a image_pil image_np =
     finish env self (tr @ [DetectorRun, SegmenterRun]) a image_np boxes logits phrases masks"
  using assms by (simp add: run_models_def nelement_def)

lemma predict_loaded:
  assumes "out_result (load_image env self (image_in a)) = Inr (image_pil, image_np)"
  shows "predict env self a =
     run_models env ((out_session (load_image env self (image_in a)))\<lparr>self_image := Some image_pil\<rparr>)
       (out_trace (load_image env self (image_in a))) a image_pil image_np"
  using assms by (simp add: predict_def Let_def)

lemma predict_load_failed:
  assumes "out_result (load_image env self (image_in a)) = Inl e"
  shows "predict env self a = stop (out_session (load_image env self (image_in a)))
            (out_trace (load_image env self (image_in a))) e"
  using assms by (simp add: predict_def Let_def)

lemma run_models_frame:
  assumes "(\<exists>e. out_result (run_models env self tr a image_pil image_np) = Inl e)
           \<or> Print no_objects_msg \<in> set (out_trace (run_models env self tr a image_pil image_np))"
    and "Print no_objects_msg \<notin> set tr"
  shows "out_session (run_models env self tr a image_pil image_np) = self"
proof (cases "predict_dino env image_pil (text_prompt a) (box_threshold a) (text_threshold a)")
  case (Inl e)
  then show ?thesis by (simp add: run_models_def)
next
  case (Inr res)
  obtain boxes logits phrases where res: "res = (boxes, logits, phrases)" by (cases res)
  show ?thesis
  proof (cases "boxes = []")
    case True
    with Inr res show ?thesis by (simp add: run_models_empty)
  next
    case False
    show ?thesis
    proof (cases "predict_sam env image_pil boxes")
      case (Inl e)
      with Inr res False show ?thesis by (simp add: run_models_def Let_def)
    next
      case seg: (Inr masks)
      let ?f = "finish env self (tr @ [DetectorRun, SegmenterRun]) a image_np boxes logits phrases masks"
      have eq: "run_models env self tr a image_pil image_np = ?f"
        using Inr res False seg by (simp add: run_models_nonempty)
      have "Print no_objects_msg \<notin> set (out_trace ?f)"
        using finish_trace [of no_objects_msg env self "tr @ [DetectorRun, SegmenterRun]" a image_np
            boxes logits phrases masks] assms(2) by auto
      with assms(1) eq obtain e where "out_result ?f = Inl e" by auto
      then show ?thesis unfolding eq by (rule finish_frame_error)
    qed
  qed
qed

lemma finish_success:
  assumes "out_result (finish env self tr a image_np boxes logits phrases masks) = Inr ret"
  shows "\<exists>src acc.
           image_np = Some src \<and>
           overlay_loop (dtype a) 0 (zip boxes masks)
             (zeros (r_height src) (r_width src) (dtype a)) = Inr acc \<and>
           out_session (finish env self tr a image_np boxes logits phrases masks) =
             self\<lparr>self_masks := Some masks, self_boxes := Some boxes,
                  self_phrases := Some phrases, self_logits := Some logits,
                  self_prediction := Some (bool_times (gt0 acc) (mask_multiplier a))\<rparr>"
  using assms
  by (auto simp: finish_def binarize_def Let_def split: option.splits sum.splits if_splits)

lemma finish_success_trace:
  assumes "out_result (finish env self tr a image_np boxes logits phrases masks) = Inr ret"
  shows "\<exists>src acc.
           image_np = Some src \<and>
           overlay_loop (dtype a) 0 (zip boxes masks)
             (zeros (r_height src) (r_width src) (dtype a)) = Inr acc \<and>
           self_prediction (out_session (finish env self tr a image_np boxes logits phrases masks))
             = Some (bool_times (gt0 acc) (mask_multiplier a)) \<and>
           self_source (out_session (finish env self tr a image_np boxes logits phrases masks))
             = self_source self \<and>
           out_trace (finish env self tr a image_np boxes logits phrases masks) =
             tr @ (case output_path a of
                     None \<Rightarrow> []
                   | Some f \<Rightarrow> [ArrayToImage (bool_times (gt0 acc) (mask_multiplier a)) f
                                (self_source self) (Some (dtype a))])"
  using assms
  by (auto simp: finish_def binarize_def Let_def split: option.splits sum.splits if_splits)

lemma predict_nonempty:
  assumes "out_result (load_image env self (image_in a)) = Inr (image_pil, image_np)"
    and "predict_dino env image_pil (text_prompt a) (box_threshold a) (text_threshold a)
           = Inr (boxes, logits, phrases)"
    and "boxes \<noteq> []"
    and "predict_sam env image_pil boxes = Inr masks"
  shows "predict env self a =
           finish env ((out_session (load_image env self (image_in a)))\<lparr>self_image := Some image_pil\<rparr>)
             (out_trace (load_image env self (image_in a)) @ [DetectorRun, SegmenterRun])
             a image_np boxes logits phrases masks"
  using assms by (simp add: predict_loaded run_models_nonempty)

lemma predict_in_memory:
  assumes "image_in a = InMemory img"
  shows "out_result (predict env self a) \<noteq> Inr (Results masks boxes phrases logits)"
    and "out_session (predict env self a) = self\<lparr>self_image := Some img\<rparr>"
    and "set (out_trace (predict env self a)) \<subseteq> {DetectorRun, SegmenterRun, Print no_objects_msg}"
  using assms
  by (auto simp: predict_def load_image_InMemory run_models_def finish_unbound Let_def
      split: sum.splits prod.splits if_splits)

lemma predict_in_memory_result:
  assumes "image_in a = InMemory img"
  shows "(\<exists>e. out_result (predict env self a) = Inl e) \<or> out_result (predict env self a) = Inr PyNone"
  using assms
  by (auto simp: predict_def load_image_InMemory run_models_def finish_unbound Let_def
      split: sum.splits prod.splits if_splits)

lemma main_always_fails: "\<exists>e. snd (main env args) = Inl e"
proof (cases "rasterio_read env (cli_image args)")
  case (Inl e)
  then show ?thesis by (simp add: main_def)
next
  case src: (Inr src)
  show ?thesis
  proof (cases "LangSAM_init env ''vit_h''")
    case (Inl e)
    with src show ?thesis by (simp add: main_def)
  next
    case model: (Inr model)
    show ?thesis
    proof (cases "Image_fromarray env (take 3 (r_bands src))")
      case (Inl e)
      with src model show ?thesis by (simp add: main_def)
    next
      case img: (Inr image_pil)
      let ?a = "default_args (InMemory image_pil) (cli_prompt args)
                  (cli_box_threshold args) (cli_text_threshold args)"
      have "image_in ?a = InMemory image_pil" by (simp add: default_args_def)
      from predict_in_memory_result [OF this, of env model]
      show ?thesis
      proof
        assume "\<exists>e. out_result (predict env model ?a) = Inl e"
        then obtain e where "out_result (predict env model ?a) = Inl e" ..
        with src model img show ?thesis by (simp add: main_def Let_def)
      next
        assume "out_result (predict env model ?a) = Inr PyNone"
        with src model img show ?thesis by (simp add: main_def Let_def)
      qed
    qed
  qed
qed

lemma show_anns_unset:
  assumes "self_prediction self = None"
  shows "show_anns env self a =
           \<lparr>out_session = self, out_trace = [Print ''Please run predict() first.''],
            out_result = Inr ()\<rparr>"
  using assms by (simp add: show_anns_def)

section \<open>The claims\<close>

subsection \<open>C1: the zero-detection path of predict\<close>

text \<open>
  Claim C1, as amended. Whenever the input loads and the detector returns zero boxes,
  \<^verbatim>\<open>predict\<close> returns normally with the value \<^verbatim>\<open>None\<close>, prints
  "No objects found in the image.", and assigns none of \<^verbatim>\<open>self.masks\<close>,
  \<^verbatim>\<open>self.boxes\<close>, \<^verbatim>\<open>self.phrases\<close>, \<^verbatim>\<open>self.logits\<close>, \<^verbatim>\<open>self.prediction\<close>: each keeps
  the value it had before the call.
\<close>

theorem predict_no_objects:
  assumes "out_result (load_image env self (image_in a)) = Inr (image_pil, image_np)"
    and "groundingdino_predict env image_pil (text_prompt a) (box_threshold a) (text_threshold a)
           = Inr ([], logits, phrases)"
  shows "out_result (predict env self a) = Inr PyNone
       \<and> Print no_objects_msg \<in> set (out_trace (predict env self a))
       \<and> self_masks (out_session (predict env self a)) = self_masks self
       \<and> self_boxes (out_session (predict env self a)) = self_boxes self
       \<and> self_phrases (out_session (predict env self a)) = self_phrases self
       \<and> self_logits (out_session (predict env self a)) = self_logits self
       \<and> self_prediction (out_session (predict env self a)) = self_prediction self"
proof -
  have "predict_dino env image_pil (text_prompt a) (box_threshold a) (text_threshold a)
          = Inr ([], logits, phrases)"
    using assms(2) by (simp add: predict_dino_def split: prod.splits)
  with assms(1) show ?thesis
    by (simp add: predict_loaded run_models_empty load_image_frame)
qed

text \<open>
  C1 at a concrete input: a fresh session, the file a.tif and a prompt that matches
  nothing. Both hypotheses hold there; the overlay stays \<open>None\<close>.
\<close>

theorem predict_no_objects_witness:
  "out_result (predict env_tree init_session (default_args (Path ''a.tif'') ''whale'' half half))
     = Inr PyNone
   \<and> Print no_objects_msg
       \<in> set (out_trace (predict env_tree init_session (default_args (Path ''a.tif'') ''whale'' half half)))
   \<and> self_prediction (out_session
        (predict env_tree init_session (default_args (Path ''a.tif'') ''whale'' half half))) = None"
proof -
  let ?a = "default_args (Path ''a.tif'') ''whale'' half half"
  have ld: "out_result (load_image env_tree init_session (image_in ?a))
              = Inr (tile_image 10, Some (tile 10))"
    by (simp add: model_defs stub_defs)
  have det: "groundingdino_predict env_tree (tile_image 10) (text_prompt ?a) (box_threshold ?a)
               (text_threshold ?a)
              = Inr ([], [], [])"
    by (simp add: model_defs stub_defs)
  from predict_no_objects [OF ld det] show ?thesis
    by (simp add: init_session_def)
qed

text \<open>
  C1 as stated says that \<^verbatim>\<open>predict\<close> yields an empty detection sequence. It yields
  \<^verbatim>\<open>None\<close>, also when \<^verbatim>\<open>return_results=True\<close> asks for the four sequences.
\<close>

theorem predict_no_objects_returns_None:
  "out_result (predict env_tree init_session
      ((default_args (InMemory (tile_image 10)) ''whale'' half half)\<lparr>return_results := True\<rparr>))
     = Inr PyNone
   \<and> out_result (predict env_tree init_session
      ((default_args (InMemory (tile_image 10)) ''whale'' half half)\<lparr>return_results := True\<rparr>))
     \<noteq> Inr (Results [] [] [] [])"
  by (simp add: model_defs stub_defs)

subsection \<open>C2: the four result fields are aligned\<close>

text \<open>
  Claim C2. After a successful \<^verbatim>\<open>predict\<close> with at least one detection the four
  result fields of the session have equal lengths:
  \<^verbatim>\<open>len(masks) == len(boxes) == len(phrases) == len(logits)\<close>. The phrases and logits
  are the detector's, the boxes its boxes rescaled one by one, the masks what the
  segmenter returned for them. Assumed of the two models: the detector returns three
  sequences of one length and the segmenter one mask per box.
\<close>

theorem predict_fields_aligned:
  assumes "out_result (load_image env self (image_in a)) = Inr (image_pil, image_np)"
    and "groundingdino_predict env image_pil (text_prompt a) (box_threshold a) (text_threshold a)
           = Inr (raw_boxes, logits, phrases)"
    and "raw_boxes \<noteq> []"
    and "length logits = length raw_boxes" and "length phrases = length raw_boxes"
    and "\<forall>bxs ms. sam_predict env image_pil bxs = Inr ms \<longrightarrow> length ms = length bxs"
    and "out_result (predict env self a) = Inr ret"
  shows "\<exists>masks boxes.
           self_masks (out_session (predict env self a)) = Some masks
         \<and> self_boxes (out_session (predict env self a)) = Some boxes
         \<and> self_phrases (out_session (predict env self a)) = Some phrases
         \<and> self_logits (out_session (predict env self a)) = Some logits
         \<and> length masks = length boxes \<and> length boxes = length phrases
         \<and> length phrases = length logits"
proof -
  obtain W H where sz: "pil_size image_pil = (W, H)" by (cases "pil_size image_pil")
  let ?boxes = "map (\<lambda>b. scale_box W H (box_cxcywh_to_xyxy b)) raw_boxes"
  have det: "predict_dino env image_pil (text_prompt a) (box_threshold a) (text_threshold a)
               = Inr (?boxes, logits, phrases)"
    using assms(2) sz by (simp add: predict_dino_def)
  have ne: "?boxes \<noteq> []" using assms(3) by simp
  show ?thesis
  proof (cases "predict_sam env image_pil ?boxes")
    case (Inl e)
    have "out_result (predict env self a) = Inl e"
      using assms(1) det ne Inl by (simp add: predict_loaded run_models_def nelement_def)
    with assms(7) show ?thesis by simp
  next
    case (Inr masks)
    then have len: "length masks = length ?boxes"
      using assms(6) by (simp add: predict_sam_def)
    note eq = predict_nonempty [OF assms(1) det ne Inr]
    from assms(7) finish_success [of env _ _ a image_np ?boxes logits phrases masks ret]
    have "self_masks (out_session (predict env self a)) = Some masks
        \<and> self_boxes (out_session (predict env self a)) = Some ?boxes
        \<and> self_phrases (out_session (predict env self a)) = Some phrases
        \<and> self_logits (out_session (predict env self a)) = Some logits"
      unfolding eq by fastforce
    with len assms(4,5) show ?thesis by simp
  qed
qed

text \<open>
  C2 at a concrete input: the first prediction on a.tif, one box, one mask, one phrase,
  one logit.
\<close>

theorem predict_fields_aligned_witness:
  "out_result (predict env_tree init_session (default_args (Path ''a.tif'') ''tree'' half half))
     = Inr PyNone
   \<and> (\<exists>masks boxes.
         self_masks session_a = Some masks \<and> self_boxes session_a = Some boxes
       \<and> self_phrases session_a = Some [''tree''] \<and> self_logits session_a = Some [9 / 10]
       \<and> length masks = length boxes \<and> length boxes = length [''tree'']
       \<and> length [''tree''] = length [9 / 10 :: rat])"
proof -
  let ?a = "default_args (Path ''a.tif'') ''tree'' half half"
  have ld: "out_result (load_image env_tree init_session (image_in ?a))
              = Inr (tile_image 10, Some (tile 10))"
    by (simp add: model_defs stub_defs)
  have det: "groundingdino_predict env_tree (tile_image 10) (text_prompt ?a) (box_threshold ?a)
               (text_threshold ?a)
              = Inr ([(1 / 2, 1 / 2, 1, 1)], [9 / 10], [''tree''])"
    by (simp add: model_defs stub_defs)
  have ne: "[(1 / 2, 1 / 2, 1, 1) :: box] \<noteq> []" by simp
  have l1: "length [9 / 10 :: rat] = length [(1 / 2, 1 / 2, 1, 1) :: box]" by simp
  have l2: "length [''tree''] = length [(1 / 2, 1 / 2, 1, 1) :: box]" by simp
  have seg: "\<forall>bxs ms. sam_predict env_tree (tile_image 10) bxs = Inr ms \<longrightarrow> length ms = length bxs"
    by (auto simp: stub_defs)
  have ok: "out_result (predict env_tree init_session ?a) = Inr PyNone"
    by code_simp
  from predict_fields_aligned [OF ld det ne l1 l2 seg ok] ok show ?thesis
    by (simp add: session_a_def)
qed

subsection \<open>C3: what a prediction that does not complete leaves behind\<close>

text \<open>
  Claim C3, as amended. When \<^verbatim>\<open>predict\<close> raises or takes the zero-detection early
  return, \<^verbatim>\<open>self.masks\<close>, \<^verbatim>\<open>self.boxes\<close>, \<^verbatim>\<open>self.phrases\<close>, \<^verbatim>\<open>self.logits\<close> and
  \<^verbatim>\<open>self.prediction\<close> retain their prior values. (\<^verbatim>\<open>self.source\<close> and
  \<^verbatim>\<open>self.image\<close> are assigned before the detector runs and are not covered.)
\<close>

theorem predict_failure_frame:
  assumes "(\<exists>e. out_result (predict env self a) = Inl e)
           \<or> Print no_objects_msg \<in> set (out_trace (predict env self a))"
  shows "self_masks (out_session (predict env self a)) = self_masks self
       \<and> self_boxes (out_session (predict env self a)) = self_boxes self
       \<and> self_phrases (out_session (predict env self a)) = self_phrases self
       \<and> self_logits (out_session (predict env self a)) = self_logits self
       \<and> self_prediction (out_session (predict env self a)) = self_prediction self"
proof (cases "out_result (load_image env self (image_in a))")
  case (Inl e)
  then show ?thesis by (simp add: predict_load_failed load_image_frame)
next
  case (Inr res)
  obtain image_pil image_np where res: "res = (image_pil, image_np)" by (cases res)
  let ?ld = "load_image env self (image_in a)"
  note eq = predict_loaded [of env self a image_pil image_np]
  have np: "Print no_objects_msg \<notin> set (out_trace ?ld)"
    using load_image_trace [of env self "image_in a"] by auto
  have "out_session (predict env self a) = (out_session ?ld)\<lparr>self_image := Some image_pil\<rparr>"
    using assms Inr res eq run_models_frame [OF _ np] by simp
  then show ?thesis by (simp add: load_image_frame)
qed

text \<open>
  C3 at a concrete input: a session that holds a result, and a call on a path that does
  not exist. The call raises and the stored masks and overlay are those of before.
\<close>

theorem predict_failure_frame_witness:
  "out_result (predict env_tree session_a (default_args (Path ''c.tif'') ''tree'' half half))
     = Inl (ValueError ''Input path c.tif does not exist.'')
   \<and> self_masks (out_session
        (predict env_tree session_a (default_args (Path ''c.tif'') ''tree'' half half)))
       = Some [[[True, True], [False, False]]]
   \<and> self_prediction (out_session
        (predict env_tree session_a (default_args (Path ''c.tif'') ''tree'' half half)))
       = Some \<lparr>arr_dtype = Int64, arr_data = [[255, 255], [0, 0]]\<rparr>"
proof -
  let ?a = "default_args (Path ''c.tif'') ''tree'' half half"
  have r: "out_result (predict env_tree session_a ?a)
             = Inl (ValueError ''Input path c.tif does not exist.'')"
    by (simp add: model_defs stub_defs)
  then have h: "(\<exists>e. out_result (predict env_tree session_a ?a) = Inl e)
      \<or> Print no_objects_msg \<in> set (out_trace (predict env_tree session_a ?a))"
    by blast
  have m: "self_masks session_a = Some [[[True, True], [False, False]]]" by code_simp
  have p: "self_prediction session_a = Some \<lparr>arr_dtype = Int64, arr_data = [[255, 255], [0, 0]]\<rparr>"
    by code_simp
  from predict_failure_frame [OF h] r m p show ?thesis by simp
qed

text \<open>
  C3 as stated includes \<^verbatim>\<open>self.source\<close> and \<^verbatim>\<open>self.image\<close>. A second prediction that
  finds nothing returns early, and both fields have already been overwritten.
\<close>

theorem predict_early_return_overwrites_image:
  "out_result (predict env_tree session_a (default_args (Path ''b.tif'') ''whale'' half half))
     = Inr PyNone
   \<and> Print no_objects_msg
       \<in> set (out_trace (predict env_tree session_a (default_args (Path ''b.tif'') ''whale'' half half)))
   \<and> self_image (out_session
        (predict env_tree session_a (default_args (Path ''b.tif'') ''whale'' half half)))
       \<noteq> self_image session_a
   \<and> self_source (out_session
        (predict env_tree session_a (default_args (Path ''b.tif'') ''whale'' half half)))
       \<noteq> self_source session_a"
  by code_simp

subsection \<open>C4: an in-memory image\<close>

text \<open>
  Claim C4 fails on the code. With an in-memory image and one detection, \<^verbatim>\<open>predict\<close>
  reaches \<^verbatim>\<open>np.zeros_like(image_np[..., 0], dtype=dtype)\<close> with \<^verbatim>\<open>image_np\<close> unbound,
  raises \<^verbatim>\<open>UnboundLocalError\<close> and populates none of the result fields.
\<close>

theorem predict_in_memory_raises:
  "predict env_tree init_session (default_args (InMemory (tile_image 10)) ''tree'' half half)
     = \<lparr>out_session = init_session\<lparr>self_image := Some (tile_image 10)\<rparr>,
        out_trace = [DetectorRun, SegmenterRun],
        out_result = Inl (UnboundLocalError ''image_np'')\<rparr>"
  by (simp add: model_defs stub_defs)

subsection \<open>C5: the command line entry point\<close>

text \<open>
  Claim C5 fails on the code. \<^verbatim>\<open>main\<close> passes a PIL image to \<^verbatim>\<open>predict\<close>, so with one
  detection the call raises \<^verbatim>\<open>UnboundLocalError\<close> and \<^verbatim>\<open>mask.tif\<close> is never written
  (lemma \<open>main_always_fails\<close>: no run of \<^verbatim>\<open>main\<close> completes).
\<close>

theorem main_one_detection_fails:
  "main env_tree \<lparr>cli_image = ''a.tif'', cli_prompt = ''tree'',
                  cli_box_threshold = half, cli_text_threshold = half\<rparr>
     = ([RasterOpened ''a.tif'', DetectorRun, SegmenterRun], Inl (UnboundLocalError ''image_np''))"
  by (simp add: main_def LangSAM_init_def SAM_MODELS_def model_defs stub_defs)

subsection \<open>C6: the compositor sums the labels of overlapping masks\<close>

text \<open>
  Claim C6. For masks of the image's shape the loop returns an accumulator that starts
  from zero in every cell and whose every pixel holds the sum of the labels \<open>i + 1\<close> of the
  masks \<open>i\<close> that cover it, cast to the dtype (the sum itself while it is below 128).
  Consequently, at a pixel that exactly masks 0 and 1 cover the accumulator holds 3 and
  the overlay binarized with the default multiplier holds 255.
\<close>

theorem compositor_overlap_sum:
  assumes "list_all (has_shape h w) masks" and "length boxes = length masks"
  shows "\<exists>acc. overlay_loop dt 0 (zip boxes masks) (zeros h w dt) = Inr acc
         \<and> (\<forall>r c. r < h \<longrightarrow> c < w \<longrightarrow>
               pixel (zeros h w dt) r c = 0
             \<and> pixel acc r c = wrap dt (label_sum 0 masks r c)
             \<and> (label_sum 0 masks r c < 128 \<longrightarrow> pixel acc r c = label_sum 0 masks r c)
             \<and> (2 \<le> length masks \<longrightarrow> covers (masks ! 0) r c \<longrightarrow> covers (masks ! 1) r c \<longrightarrow>
                  (\<forall>i. 2 \<le> i \<longrightarrow> i < length masks \<longrightarrow> \<not> covers (masks ! i) r c) \<longrightarrow>
                  pixel acc r c = 3
                  \<and> (\<exists>ov. binarize acc 255 = Inr ov \<and> pixel ov r c = 255)))"
proof -
  from overlay_total [OF assms(1), of dt boxes]
  obtain acc where acc: "overlay_loop dt 0 (zip boxes masks) (zeros h w dt) = Inr acc"
      "has_shape h w (arr_data acc)"
    by blast
  have b: "binarize acc 255 = Inr (bool_times (gt0 acc) 255)"
    by (simp add: binarize_def int64_ok_def)
  have px: "pixel acc r c = wrap dt (label_sum 0 masks r c)" if rc: "r < h" "c < w" for r c
    using overlay_from_zeros [OF assms rc, of dt] acc(1) by auto
  have three: "pixel acc r c = 3 \<and> (\<exists>ov. binarize acc 255 = Inr ov \<and> pixel ov r c = 255)"
    if rc: "r < h" "c < w" and two: "2 \<le> length masks"
      and c0: "covers (masks ! 0) r c" and c1: "covers (masks ! 1) r c"
      and others: "\<forall>i. 2 \<le> i \<longrightarrow> i < length masks \<longrightarrow> \<not> covers (masks ! i) r c"
    for r c
  proof -
    from two obtain m0 m1 rest where ms: "masks = m0 # m1 # rest"
      by (cases masks; cases "tl masks") auto
    have "\<forall>j < length rest. \<not> covers (rest ! j) r c"
    proof (intro allI impI)
      fix j assume "j < length rest"
      then have "2 \<le> j + 2" "j + 2 < length masks" using ms by simp_all
      with others have "\<not> covers (masks ! (j + 2)) r c" by blast
      moreover have "masks ! (j + 2) = rest ! j" using ms by simp
      ultimately show "\<not> covers (rest ! j) r c" by simp
    qed
    then have "label_sum 2 rest r c = 0" by (rule label_sum_none)
    with c0 c1 ms have ls: "label_sum 0 masks r c = 3"
      by (simp add: numeral_2_eq_2)
    have p3: "pixel acc r c = 3" using px [OF rc] ls by (simp add: wrap_small)
    have "pixel (bool_times (gt0 acc) 255) r c = 255"
      using binarize_pixel [OF acc(2) rc, of 255] p3 by simp
    with p3 b show ?thesis by simp
  qed
  have small: "pixel acc r c = label_sum 0 masks r c"
    if rc: "r < h" "c < w" and lt: "label_sum 0 masks r c < 128" for r c
    using px [OF rc] lt label_sum_nonneg [of 0 masks r c] by (simp add: wrap_small)
  have body: "pixel (zeros h w dt) r c = 0
             \<and> pixel acc r c = wrap dt (label_sum 0 masks r c)
             \<and> (label_sum 0 masks r c < 128 \<longrightarrow> pixel acc r c = label_sum 0 masks r c)
             \<and> (2 \<le> length masks \<longrightarrow> covers (masks ! 0) r c \<longrightarrow> covers (masks ! 1) r c \<longrightarrow>
                  (\<forall>i. 2 \<le> i \<longrightarrow> i < length masks \<longrightarrow> \<not> covers (masks ! i) r c) \<longrightarrow>
                  pixel acc r c = 3
                  \<and> (\<exists>ov. binarize acc 255 = Inr ov \<and> pixel ov r c = 255))"
    if rc: "r < h" "c < w" for r c
    using pixel_zeros [OF rc, of dt] px [OF rc] small [OF rc] three [OF rc] by blast
  with acc(1) show ?thesis by blast
qed

text \<open>
  C6 at a concrete input: three masks on a 2 x 2 tile. Pixel (0, 0) is covered by
  masks 0 and 1 alone and holds 3; the other pixels hold 1 + 3, 2 + 3 and 1 + 2 + 3.
  Last, the overlay \<^verbatim>\<open>predict\<close> stores for two masks that overlap in one pixel.
\<close>

theorem compositor_overlap_sum_witness:
  "(\<exists>acc ov. overlay_loop UInt8 0
          (zip [(0, 0, 1, 1), (0, 0, 2, 2), (0, 0, 2, 1)]
             [[[True, True], [False, True]], [[True, False], [True, True]],
              [[False, True], [True, True]]])
          (zeros 2 2 UInt8) = Inr acc
        \<and> pixel acc 0 0 = 3 \<and> pixel acc 0 1 = 1 + 3 \<and> pixel acc 1 0 = 2 + 3
        \<and> pixel acc 1 1 = 1 + 2 + 3
        \<and> binarize acc 255 = Inr ov \<and> pixel ov 0 0 = 255)
   \<and> self_prediction (out_session
        (predict (stub_env det_two seg_overlap) init_session
           (default_args (Path ''a.tif'') ''tree'' half half)))
       = Some \<lparr>arr_dtype = Int64, arr_data = [[255, 255], [255, 0]]\<rparr>"
proof -
  let ?ms = "[[[True, True], [False, True]], [[True, False], [True, True]],
              [[False, True], [True, True]]] :: mask list"
  let ?bs = "[(0, 0, 1, 1), (0, 0, 2, 2), (0, 0, 2, 1)] :: box list"
  have h1: "list_all (has_shape 2 2) ?ms" by (simp add: has_shape_def)
  have h2: "length ?bs = length ?ms" by simp
  have l00: "label_sum 0 ?ms 0 0 = 3" and l01: "label_sum 0 ?ms 0 1 = 4"
    and l10: "label_sum 0 ?ms 1 0 = 5" and l11: "label_sum 0 ?ms 1 1 = 6"
    by (simp_all add: covers_def)
  have h5: "2 \<le> length ?ms" by simp
  have h6: "covers (?ms ! 0) 0 0" by (simp add: covers_def)
  have h7: "covers (?ms ! 1) 0 0" by (simp add: covers_def)
  have h8: "\<forall>i. 2 \<le> i \<longrightarrow> i < length ?ms \<longrightarrow> \<not> covers (?ms ! i) 0 0"
  proof (intro allI impI)
    fix i :: nat assume "2 \<le> i" "i < length ?ms"
    then have "i = 2" by simp
    then show "\<not> covers (?ms ! i) 0 0" by (simp add: covers_def)
  qed
  have pr: "self_prediction (out_session
        (predict (stub_env det_two seg_overlap) init_session
           (default_args (Path ''a.tif'') ''tree'' half half)))
       = Some \<lparr>arr_dtype = Int64, arr_data = [[255, 255], [255, 0]]\<rparr>"
    by code_simp
  from compositor_overlap_sum [OF h1 h2, of UInt8]
  obtain acc where loop: "overlay_loop UInt8 0 (zip ?bs ?ms) (zeros 2 2 UInt8) = Inr acc"
    and every: "\<And>r c. r < 2 \<Longrightarrow> c < 2 \<Longrightarrow>
               pixel (zeros 2 2 UInt8) r c = 0
             \<and> pixel acc r c = wrap UInt8 (label_sum 0 ?ms r c)
             \<and> (label_sum 0 ?ms r c < 128 \<longrightarrow> pixel acc r c = label_sum 0 ?ms r c)
             \<and> (2 \<le> length ?ms \<longrightarrow> covers (?ms ! 0) r c \<longrightarrow> covers (?ms ! 1) r c \<longrightarrow>
                  (\<forall>i. 2 \<le> i \<longrightarrow> i < length ?ms \<longrightarrow> \<not> covers (?ms ! i) r c) \<longrightarrow>
                  pixel acc r c = 3
                  \<and> (\<exists>ov. binarize acc 255 = Inr ov \<and> pixel ov r c = 255))"
    by blast
  have z: "(0::nat) < 2" and o: "(1::nat) < 2" by simp_all
  from every [OF z z] h5 h6 h7 h8
  obtain ov where p00: "pixel acc 0 0 = 3" "binarize acc 255 = Inr ov" "pixel ov 0 0 = 255"
    by blast
  from every [OF z o] l01 have p01: "pixel acc 0 1 = 4" by simp
  from every [OF o z] l10 have p10: "pixel acc 1 0 = 5" by simp
  from every [OF o o] l11 have p11: "pixel acc 1 1 = 6" by simp
  from loop p00 p01 p10 p11 pr show ?thesis by simp
qed

subsection \<open>C7: the overlay stored in the session\<close>

text \<open>
  Claim C7, as amended. After a successful prediction \<^verbatim>\<open>self.prediction\<close> is
  \<^verbatim>\<open>(accumulator > 0) * mask_multiplier\<close>, an int64 array (a boolean array times a
  Python int), whatever \<^verbatim>\<open>dtype\<close> was configured. The accumulator has the configured
  dtype, and when an output path is given this overlay is passed to
  \<^verbatim>\<open>array_to_image\<close> with the path, \<^verbatim>\<open>self.source\<close> and \<^verbatim>\<open>dtype=dtype\<close>.
\<close>

theorem prediction_is_binarized_accumulator:
  assumes "out_result (load_image env self (image_in a)) = Inr (image_pil, image_np)"
    and "predict_dino env image_pil (text_prompt a) (box_threshold a) (text_threshold a)
           = Inr (boxes, logits, phrases)"
    and "boxes \<noteq> []"
    and "predict_sam env image_pil boxes = Inr masks"
    and "out_result (predict env self a) = Inr ret"
  shows "\<exists>src acc ov.
           image_np = Some src
         \<and> overlay_loop (dtype a) 0 (zip boxes masks)
             (zeros (r_height src) (r_width src) (dtype a)) = Inr acc
         \<and> arr_dtype acc = dtype a
         \<and> ov = \<lparr>arr_dtype = Int64,
                  arr_data = map (map (\<lambda>v. if 0 < v then mask_multiplier a else 0))
                               (arr_data acc)\<rparr>
         \<and> self_prediction (out_session (predict env self a)) = Some ov
         \<and> (\<forall>f. output_path a = Some f \<longrightarrow>
               ArrayToImage ov f (self_source (out_session (predict env self a)))
                 (Some (dtype a)) \<in> set (out_trace (predict env self a)))"
proof -
  let ?s1 = "(out_session (load_image env self (image_in a)))\<lparr>self_image := Some image_pil\<rparr>"
  let ?tr = "out_trace (load_image env self (image_in a)) @ [DetectorRun, SegmenterRun]"
  have eq: "predict env self a = finish env ?s1 ?tr a image_np boxes logits phrases masks"
    by (rule predict_nonempty [OF assms(1-4)])
  have ok: "out_result (finish env ?s1 ?tr a image_np boxes logits phrases masks) = Inr ret"
    using assms(5) by (simp only: eq)
  from finish_success_trace [OF ok]
  obtain src acc where f: "image_np = Some src"
      "overlay_loop (dtype a) 0 (zip boxes masks)
         (zeros (r_height src) (r_width src) (dtype a)) = Inr acc"
      "self_prediction (out_session (predict env self a))
         = Some (bool_times (gt0 acc) (mask_multiplier a))"
      "self_source (out_session (predict env self a)) = self_source ?s1"
      "out_trace (predict env self a) =
         ?tr @ (case output_path a of
              None \<Rightarrow> []
            | Some f \<Rightarrow> [ArrayToImage (bool_times (gt0 acc) (mask_multiplier a)) f
                         (self_source ?s1) (Some (dtype a))])"
    unfolding eq by blast
  have d: "arr_dtype acc = dtype a"
    using overlay_loop_dtype [OF f(2)] by (simp add: zeros_def)
  have ov: "bool_times (gt0 acc) (mask_multiplier a)
      = \<lparr>arr_dtype = Int64,
         arr_data = map (map (\<lambda>v. if 0 < v then mask_multiplier a else 0)) (arr_data acc)\<rparr>"
    by (simp add: bool_times_def gt0_def comp_def)
  have tr: "\<forall>f. output_path a = Some f \<longrightarrow>
      ArrayToImage (bool_times (gt0 acc) (mask_multiplier a)) f
        (self_source (out_session (predict env self a))) (Some (dtype a))
        \<in> set (out_trace (predict env self a))"
    unfolding f(4) f(5) by simp
  show ?thesis
    apply (rule exI [of _ src])
    apply (rule exI [of _ acc])
    apply (rule exI [of _ "bool_times (gt0 acc) (mask_multiplier a)"])
    using f(1,2,3) d ov tr by simp
qed

text \<open>
  C7 at a concrete input: a prediction on a.tif with the default arguments and the
  output path out.tif.
\<close>

theorem prediction_is_binarized_accumulator_witness:
  "overlay_loop UInt8 0 (zip [(0, 0, 2, 2)] [[[True, True], [False, False]]]) (zeros 2 2 UInt8)
     = Inr \<lparr>arr_dtype = UInt8, arr_data = [[1, 1], [0, 0]]\<rparr>
   \<and> self_prediction (out_session
        (predict env_tree init_session
           ((default_args (Path ''a.tif'') ''tree'' half half)\<lparr>output_path := Some ''out.tif''\<rparr>)))
       = Some \<lparr>arr_dtype = Int64, arr_data = [[255, 255], [0, 0]]\<rparr>
   \<and> ArrayToImage \<lparr>arr_dtype = Int64, arr_data = [[255, 255], [0, 0]]\<rparr> ''out.tif''
        (Some ''a.tif'') (Some UInt8)
       \<in> set (out_trace
        (predict env_tree init_session
           ((default_args (Path ''a.tif'') ''tree'' half half)\<lparr>output_path := Some ''out.tif''\<rparr>)))"
proof -
  let ?a = "(default_args (Path ''a.tif'') ''tree'' half half)\<lparr>output_path := Some ''out.tif''\<rparr>"
  have ld: "out_result (load_image env_tree init_session (image_in ?a))
              = Inr (tile_image 10, Some (tile 10))"
    by (simp add: model_defs stub_defs)
  have det: "predict_dino env_tree (tile_image 10) (text_prompt ?a) (box_threshold ?a) (text_threshold ?a)
              = Inr ([(0, 0, 2, 2)], [9 / 10], [''tree''])"
    by (simp add: model_defs stub_defs)
  have ne: "[(0, 0, 2, 2) :: box] \<noteq> []" by simp
  have seg: "predict_sam env_tree (tile_image 10) [(0, 0, 2, 2)] = Inr [[[True, True], [False, False]]]"
    by (simp add: model_defs stub_defs)
  have ok: "out_result (predict env_tree init_session ?a) = Inr PyNone"
    by code_simp
  have ov: "overlay_loop UInt8 0 (zip [(0, 0, 2, 2)] [[[True, True], [False, False]]]) (zeros 2 2 UInt8)
     = Inr \<lparr>arr_dtype = UInt8, arr_data = [[1, 1], [0, 0]]\<rparr>"
    by code_simp
  have d: "dtype ?a = UInt8" "mask_multiplier ?a = 255" "output_path ?a = Some ''out.tif''"
    by (simp_all add: default_args_def)
  have src: "self_source (out_session (predict env_tree init_session ?a)) = Some ''a.tif''"
    by code_simp
  from prediction_is_binarized_accumulator [OF ld det ne seg ok] ov d src
  show ?thesis by (simp add: tile_def)
qed

text \<open>
  C7 as stated gives the stored overlay the configured dtype. With the default
  \<^verbatim>\<open>dtype=np.uint8\<close> the stored overlay is int64.
\<close>

theorem prediction_dtype_is_int64:
  "dtype (default_args (Path ''a.tif'') ''tree'' half half) = UInt8
   \<and> out_result (predict env_tree init_session (default_args (Path ''a.tif'') ''tree'' half half))
       = Inr PyNone
   \<and> map_option arr_dtype (self_prediction (out_session
        (predict env_tree init_session (default_args (Path ''a.tif'') ''tree'' half half))))
       = Some Int64"
  by code_simp

subsection \<open>C8: a path that does not exist\<close>

text \<open>
  Claim C8. If the string argument, after the download when it starts with "http",
  names a path that does not exist, \<^verbatim>\<open>predict\<close> raises \<^verbatim>\<open>ValueError\<close>; neither the
  detector nor the segmenter has been called, and the session is unchanged.
\<close>

theorem predict_missing_path:
  assumes "image_in a = Path url"
    and "(if startswith url ''http'' then download_file env url else Inr url) = Inr p"
    and "\<not> path_exists env p"
  shows "out_result (predict env self a)
           = Inl (ValueError (''Input path '' @ p @ '' does not exist.''))
       \<and> DetectorRun \<notin> set (out_trace (predict env self a))
       \<and> SegmenterRun \<notin> set (out_trace (predict env self a))
       \<and> out_session (predict env self a) = self"
  using assms by (simp add: predict_def load_image_def Let_def)

text \<open>
  C8 at a concrete input: a URL whose download lands on a path that does not exist.
\<close>

theorem predict_missing_path_witness:
  "out_result (predict env_tree init_session (default_args (Path ''http://host/c.tif'') ''tree'' half half))
     = Inl (ValueError ''Input path /tmp/downloaded.tif does not exist.'')
   \<and> out_trace (predict env_tree init_session (default_args (Path ''http://host/c.tif'') ''tree'' half half))
     = [Downloaded ''http://host/c.tif'']
   \<and> out_session (predict env_tree init_session (default_args (Path ''http://host/c.tif'') ''tree'' half half))
     = init_session"
proof -
  let ?a = "default_args (Path ''http://host/c.tif'') ''tree'' half half"
  have i: "image_in ?a = Path ''http://host/c.tif''" by (simp add: default_args_def)
  have d: "(if startswith ''http://host/c.tif'' ''http''
            then download_file env_tree ''http://host/c.tif'' else Inr ''http://host/c.tif'')
           = Inr ''/tmp/downloaded.tif''"
    by (simp add: startswith_def stub_defs)
  have e: "\<not> path_exists env_tree ''/tmp/downloaded.tif''" by (simp add: stub_defs)
  have t: "out_trace (predict env_tree init_session ?a) = [Downloaded ''http://host/c.tif'']"
    by (simp add: model_defs stub_defs)
  from predict_missing_path [OF i d e, of init_session] t show ?thesis by simp
qed

subsection \<open>C9: show\_anns after a prediction that found nothing\<close>

text \<open>
  Claim C9 fails on the code. After a prediction with a result, a second prediction that
  finds zero objects leaves the old overlay in \<^verbatim>\<open>self.prediction\<close>; \<^verbatim>\<open>show_anns\<close> then
  passes both guards, prints nothing and draws the new image under the old boxes and the
  old overlay. (With no prediction stored it does print and return: lemma
  \<open>show_anns_unset\<close>.)
\<close>

theorem show_anns_renders_stale_overlay:
  "out_result (predict env_tree session_a (default_args (Path ''b.tif'') ''whale'' half half))
     = Inr PyNone
   \<and> out_trace (predict env_tree session_a (default_args (Path ''b.tif'') ''whale'' half half))
     = [RasterOpened ''b.tif'', DetectorRun, Print no_objects_msg]
   \<and> show_anns env_tree session_b default_show_args
     = \<lparr>out_session = session_b,
        out_trace = [PltFigure, PltImshowImage (tile_image 20), PltAddPatch (0, 0, 2, 2),
                     PltImshowArray \<lparr>arr_dtype = Int64, arr_data = [[255, 255], [0, 0]]\<rparr>,
                     PltAxis],
        out_result = Inr ()\<rparr>"
  by code_simp

subsection \<open>C10: the uint8 accumulator wraps\<close>

text \<open>
  Claim C10. With \<^verbatim>\<open>dtype=np.uint8\<close> a pixel of the accumulator holds the sum of the
  labels covering it modulo 256; when that sum is a multiple of 256 the accumulator
  holds 0 there and the binarized overlay holds 0, background.
\<close>

theorem uint8_accumulator_wraps:
  assumes "list_all (has_shape h w) masks" and "length boxes = length masks"
    and "r < h" and "c < w" and "int64_ok k"
  shows "\<exists>acc ov. overlay_loop UInt8 0 (zip boxes masks) (zeros h w UInt8) = Inr acc
           \<and> arr_dtype acc = UInt8
           \<and> pixel acc r c = label_sum 0 masks r c mod 256
           \<and> binarize acc k = Inr ov
           \<and> (label_sum 0 masks r c mod 256 = 0 \<longrightarrow> pixel acc r c = 0 \<and> pixel ov r c = 0)"
proof -
  from overlay_from_zeros [OF assms(1-4), of UInt8]
  obtain acc where acc: "overlay_loop UInt8 0 (zip boxes masks) (zeros h w UInt8) = Inr acc"
      "arr_dtype acc = UInt8"
      "has_shape h w (arr_data acc)" "pixel acc r c = wrap UInt8 (label_sum 0 masks r c)"
    by blast
  have p: "pixel acc r c = label_sum 0 masks r c mod 256"
    using acc(4) by (simp add: wrap_def)
  have b: "binarize acc k = Inr (bool_times (gt0 acc) k)"
    using assms(5) by (simp add: binarize_def)
  have "label_sum 0 masks r c mod 256 = 0 \<longrightarrow> pixel (bool_times (gt0 acc) k) r c = 0"
    using binarize_pixel [OF acc(3) assms(3,4), of k] p by simp
  with acc(1,2) p b show ?thesis by simp
qed

text \<open>
  C10 at a concrete input: 255 masks of which the first (label 1) and the last
  (label 255) cover pixel (0, 0). The labels sum to 256, the accumulator and the overlay
  stored by \<^verbatim>\<open>predict\<close> hold 0 at the covered pixel.
\<close>

theorem uint8_accumulator_wraps_witness:
  "covers (seg_first_last boxes_many ! 0) 0 0
   \<and> covers (seg_first_last boxes_many ! 254) 0 0
   \<and> label_sum 0 (seg_first_last boxes_many) 0 0 = 1 + 255
   \<and> (\<exists>acc ov. overlay_loop UInt8 0 (zip boxes_many (seg_first_last boxes_many)) (zeros 2 2 UInt8)
                  = Inr acc
         \<and> pixel acc 0 0 = 0 \<and> binarize acc 255 = Inr ov \<and> pixel ov 0 0 = 0)
   \<and> self_prediction (out_session
        (predict env_many init_session (default_args (Path ''a.tif'') ''tree'' half half)))
       = Some \<lparr>arr_dtype = Int64, arr_data = [[0, 0], [0, 0]]\<rparr>"
proof -
  let ?ms = "seg_first_last boxes_many"
  have h1: "list_all (has_shape 2 2) ?ms" by code_simp
  have h2: "length boxes_many = length ?ms" by code_simp
  have h3: "(0::nat) < 2" by simp
  have h5: "int64_ok 255" by (simp add: int64_ok_def)
  have c0: "covers (?ms ! 0) 0 0" by code_simp
  have c1: "covers (?ms ! 254) 0 0" by code_simp
  have ls: "label_sum 0 ?ms 0 0 = 1 + 255" by code_simp
  have pr: "self_prediction (out_session
        (predict env_many init_session (default_args (Path ''a.tif'') ''tree'' half half)))
       = Some \<lparr>arr_dtype = Int64, arr_data = [[0, 0], [0, 0]]\<rparr>"
    by code_simp
  from uint8_accumulator_wraps [OF h1 h2 h3 h3 h5] ls
  have "\<exists>acc ov. overlay_loop UInt8 0 (zip boxes_many ?ms) (zeros 2 2 UInt8) = Inr acc
         \<and> pixel acc 0 0 = 0 \<and> binarize acc 255 = Inr ov \<and> pixel ov 0 0 = 0"
    by fastforce
  with c0 c1 ls pr show ?thesis by blast
qed

end
